theory Spec2Isabelle
  imports Main "HOL-Library.Word"
begin

unbundle bit_operations_syntax

section \<open>BLE proxy: the event handlers of main.c\<close>

text \<open>
  The program is three callbacks registered with the BLE stack (GAP, GATT client, GATT
  server), four file-scope variables they share, and one routine that assembles the
  service-data bytes of the advertising record. Every handler is modelled as a function
  from the globals to the new globals and the list of calls it makes (stack requests and
  log lines), in program order. What the stack leaves in an out-parameter or returns is an
  argument of the handler.
\<close>

subsection \<open>Types of the stack interface used by the program\<close>

type_synonym esp_gatt_if_t = "8 word"
type_synonym esp_bd_addr_t = "8 word list"
type_synonym esp_gatt_status_t = "32 word"
type_synonym esp_err_t = "32 word"

text \<open>Status and length constants of the stack headers, with the values they have there.\<close>

definition ESP_GATT_OK :: esp_gatt_status_t where
  "ESP_GATT_OK = 0"

definition ESP_UUID_LEN_16 :: "16 word" where
  "ESP_UUID_LEN_16 = 2"

definition ESP_BLE_ADV_FLAG_GEN_DISC :: "8 word" where
  "ESP_BLE_ADV_FLAG_GEN_DISC = push_bit 1 1"

definition ESP_BLE_ADV_FLAG_BREDR_NOT_SPT :: "8 word" where
  "ESP_BLE_ADV_FLAG_BREDR_NOT_SPT = push_bit 2 1"

datatype esp_ble_addr_type_t = BLE_ADDR_TYPE_PUBLIC | BLE_ADDR_TYPE_RANDOM
  | BLE_ADDR_TYPE_RPA_PUBLIC | BLE_ADDR_TYPE_RPA_RANDOM

datatype esp_ble_adv_type_t = ADV_TYPE_IND | ADV_TYPE_DIRECT_IND_HIGH | ADV_TYPE_SCAN_IND
  | ADV_TYPE_NONCONN_IND | ADV_TYPE_DIRECT_IND_LOW

datatype esp_ble_adv_channel_t = ADV_CHNL_37 | ADV_CHNL_38 | ADV_CHNL_39 | ADV_CHNL_ALL

datatype esp_ble_adv_filter_t = ADV_FILTER_ALLOW_SCAN_ANY_CON_ANY
  | ADV_FILTER_ALLOW_SCAN_WLST_CON_ANY | ADV_FILTER_ALLOW_SCAN_ANY_CON_WLST
  | ADV_FILTER_ALLOW_SCAN_WLST_CON_WLST

datatype esp_gatt_db_attr_type_t = ESP_GATT_DB_PRIMARY_SERVICE | ESP_GATT_DB_SECONDARY_SERVICE
  | ESP_GATT_DB_CHARACTERISTIC | ESP_GATT_DB_DESCRIPTOR | ESP_GATT_DB_INCLUDED_SERVICE
  | ESP_GATT_DB_ALL

text \<open>
  A UUID of the stack: its length in bytes and the 16-bit view of its value union, the only
  member of the union the program reads.
\<close>

record esp_bt_uuid_t =
  len :: "16 word"
  uuid16 :: "16 word"

record esp_gattc_char_elem_t =
  char_handle :: "16 word"
  properties :: "8 word"
  uuid :: esp_bt_uuid_t

record esp_ble_adv_data_t =
  set_scan_rsp :: bool
  include_name :: bool
  include_txpower :: bool
  min_interval :: int
  max_interval :: int
  appearance :: int
  manufacturer_len :: "16 word"
  p_manufacturer_data :: "8 word list option"
  service_data_len :: "16 word"
  p_service_data :: "8 word list option"
  service_uuid_len :: "16 word"
  p_service_uuid :: "8 word list option"
  flag :: "8 word"

record esp_ble_adv_params_t =
  adv_int_min :: "16 word"
  adv_int_max :: "16 word"
  adv_type :: esp_ble_adv_type_t
  own_addr_type :: esp_ble_addr_type_t
  peer_addr :: esp_bd_addr_t
  peer_addr_type :: esp_ble_addr_type_t
  channel_map :: esp_ble_adv_channel_t
  adv_filter_policy :: esp_ble_adv_filter_t

subsection \<open>Constants of the program\<close>

definition TAG :: string where
  "TAG = ''BLE_PROXY''"

definition LOCAL_DEVICE_NAME :: string where
  "LOCAL_DEVICE_NAME = ''TIAGO-U105''"

definition target_bda :: esp_bd_addr_t where
  "target_bda = [0xFE, 0x98, 0x00, 0x30, 0x39, 0x45]"

definition service_uuid128 :: "8 word list" where
  "service_uuid128 = [0xfb, 0x34, 0x9b, 0x5f, 0x80, 0x00, 0x00, 0x80, 0x00, 0x10, 0x00, 0x00,
     0x09, 0x18, 0x00, 0x00]"

definition service_data_uuid :: "16 word" where
  "service_data_uuid = 0xC1C5"

definition service_data_payload :: "8 word list" where
  "service_data_payload = [0xFE, 0x98, 0x00, 0x30, 0x39, 0x44, 0xE4, 0x0C, 0x7F, 0x08, 0x1D,
     0x04, 0x00, 0x00, 0x04, 0x46, 0x60, 0x09, 0x00, 0x0A]"

definition adv_params :: esp_ble_adv_params_t where
  "adv_params = \<lparr> adv_int_min = 0x20, adv_int_max = 0x40, adv_type = ADV_TYPE_IND,
     own_addr_type = BLE_ADDR_TYPE_PUBLIC, peer_addr = [0, 0, 0, 0, 0, 0],
     peer_addr_type = BLE_ADDR_TYPE_PUBLIC, channel_map = ADV_CHNL_ALL,
     adv_filter_policy = ADV_FILTER_ALLOW_SCAN_ANY_CON_ANY \<rparr>"

subsection \<open>The file-scope variables\<close>

record globals =
  service_data :: "8 word list"
  gattc_if_global :: esp_gatt_if_t
  gattc_conn_id_global :: "16 word"
  connected :: bool

text \<open>
  The values at program start: the static buffer \<open>service_data\<close> has
  \<open>2 + sizeof(service_data_payload)\<close> zero bytes, the handles are 0 and the flag is false.
\<close>

definition init_globals :: globals where
  "init_globals = \<lparr> service_data = replicate (2 + length service_data_payload) 0,
     gattc_if_global = 0, gattc_conn_id_global = 0, connected = False \<rparr>"

text \<open>
  \<open>adv_data\<close> points at \<open>service_data\<close> and \<open>service_uuid128\<close>; the model
  dereferences the pointers when the structure is handed to the stack, so it takes the
  current globals.
\<close>

definition adv_data :: "globals \<Rightarrow> esp_ble_adv_data_t" where
  "adv_data g = \<lparr> set_scan_rsp = False, include_name = True, include_txpower = False,
     min_interval = 0x20, max_interval = 0x40, appearance = 0x00,
     manufacturer_len = 0, p_manufacturer_data = None,
     service_data_len = of_nat (2 + length service_data_payload),
     p_service_data = Some (service_data g),
     service_uuid_len = of_nat (length service_uuid128),
     p_service_uuid = Some service_uuid128,
     flag = ESP_BLE_ADV_FLAG_GEN_DISC OR ESP_BLE_ADV_FLAG_BREDR_NOT_SPT \<rparr>"

subsection \<open>Assembling the service data\<close>

text \<open>
  \<open>memcpy(&dst[off], src, n)\<close> with \<open>n = length src\<close>, for a destination that
  holds at least \<open>off + n\<close> bytes (the static buffer does: it is declared with that size).
\<close>

definition memcpy_at :: "8 word list \<Rightarrow> nat \<Rightarrow> 8 word list \<Rightarrow> 8 word list" where
  "memcpy_at dst off src = take off dst @ src @ drop (off + length src) dst"

definition prepare_service_data :: "globals \<Rightarrow> globals" where
  "prepare_service_data g =
     (let b0 = (service_data g)[0 := ucast (service_data_uuid AND 0xFF)];
          b1 = b0[1 := ucast (drop_bit 8 service_data_uuid AND 0xFF)]
      in g\<lparr> service_data := memcpy_at b1 2 service_data_payload \<rparr>)"

subsection \<open>Calls made by the handlers\<close>

text \<open>
  An argument of a log line: a number, the name of an error code as
  \<open>esp_err_to_name\<close> gives it, or a value read from a buffer slot nobody wrote.
\<close>

datatype log_arg = ArgNum nat | ArgErrName esp_err_t | ArgIndeterminate

text \<open>
  One constructor for each function of the stack, the allocator and the logger that the
  handlers call, with the arguments of the call. \<open>malloc\<close> carries the number of
  \<open>esp_gattc_char_elem_t\<close> slots asked for; \<open>esp_ble_gattc_get_attr_count\<close> and
  \<open>esp_ble_gattc_get_all_char\<close> carry every argument but the pointers (for the latter the
  value of \<open>count\<close> on entry stands for \<open>&count\<close>).
\<close>

datatype effect =
    ESP_LOGI string string "log_arg list"
  | ESP_LOGE string string "log_arg list"
  | ESP_LOG_BUFFER_HEX string "8 word list" "16 word"
  | esp_ble_gap_start_advertising esp_ble_adv_params_t
  | esp_ble_gap_set_device_name string
  | esp_ble_gap_config_adv_data esp_ble_adv_data_t
  | esp_ble_gattc_open esp_gatt_if_t esp_bd_addr_t esp_ble_addr_type_t bool
  | esp_ble_gattc_search_service esp_gatt_if_t "16 word" "esp_bt_uuid_t option"
  | esp_ble_gattc_get_attr_count esp_gatt_if_t "16 word" esp_gatt_db_attr_type_t
      "16 word" "16 word" "16 word"
  | malloc nat
  | esp_ble_gattc_get_all_char esp_gatt_if_t "16 word" "16 word" "16 word" "16 word" "16 word"
  | free

fun is_log :: "effect \<Rightarrow> bool" where
  "is_log (ESP_LOGI _ _ _) = True"
| "is_log (ESP_LOGE _ _ _) = True"
| "is_log (ESP_LOG_BUFFER_HEX _ _ _) = True"
| "is_log _ = False"

text \<open>The calls of a trace that are not log lines.\<close>

definition requests :: "effect list \<Rightarrow> effect list" where
  "requests fx = filter (\<lambda>x. \<not> is_log x) fx"

fun is_start_advertising :: "effect \<Rightarrow> bool" where
  "is_start_advertising (esp_ble_gap_start_advertising _) = True"
| "is_start_advertising _ = False"

subsection \<open>Events\<close>

text \<open>
  Each callback receives an event code and a parameter union; the model joins the two: a
  constructor per event code the handlers name, with the members of its parameter, and one
  more for every other code. Events the handlers do not name but the claims speak about
  (the client-role disconnect) have a constructor of their own; they take the
  \<open>default\<close> branch like the rest.
\<close>

datatype esp_gap_ble_cb_event_t =
    ESP_GAP_BLE_ADV_DATA_SET_COMPLETE_EVT (adv_data_cmpl_status: "32 word")
  | ESP_GAP_BLE_ADV_START_COMPLETE_EVT (adv_start_cmpl_status: "32 word")
  | ESP_GAP_BLE_SCAN_RESULT_EVT
  | ESP_GAP_BLE_OTHER_EVT nat

datatype esp_gattc_cb_event_t =
    ESP_GATTC_REG_EVT (reg_status: esp_gatt_status_t) (reg_app_id: "16 word")
  | ESP_GATTC_OPEN_EVT (open_status: esp_gatt_status_t) (open_conn_id: "16 word")
  | ESP_GATTC_SEARCH_RES_EVT (search_res_conn_id: "16 word") (search_res_start_handle: "16 word")
      (search_res_end_handle: "16 word") (search_res_srvc_uuid: esp_bt_uuid_t)
  | ESP_GATTC_SEARCH_CMPL_EVT (search_cmpl_status: esp_gatt_status_t)
      (search_cmpl_conn_id: "16 word")
  | ESP_GATTC_NOTIFY_EVT (notify_conn_id: "16 word") (notify_value_len: "16 word")
      (notify_value: "8 word list")
  | ESP_GATTC_DISCONNECT_EVT (disconnect_reason: "32 word") (disconnect_conn_id: "16 word")
  | ESP_GATTC_OTHER_EVT nat

datatype esp_gatts_cb_event_t =
    ESP_GATTS_REG_EVT (gatts_reg_status: esp_gatt_status_t) (gatts_reg_app_id: "16 word")
  | ESP_GATTS_CONNECT_EVT (gatts_connect_conn_id: "16 word")
  | ESP_GATTS_DISCONNECT_EVT (gatts_disconnect_conn_id: "16 word")
  | ESP_GATTS_OTHER_EVT nat

subsection \<open>What the stack answers during a client-role callback\<close>

text \<open>
  \<open>attr_count_out\<close>: the value \<open>esp_ble_gattc_get_attr_count\<close> stores through its
  \<open>count\<close> pointer, \<open>None\<close> when it stores nothing. \<open>malloc_ok\<close>: whether
  \<open>malloc\<close> returns a non-null pointer. \<open>all_char_out\<close>: the value
  \<open>esp_ble_gattc_get_all_char\<close> stores through \<open>count\<close>, \<open>None\<close> when it stores
  nothing. \<open>all_char_buf\<close>: the entries it writes to the result buffer, from index 0.
\<close>

record gattc_stack =
  attr_count_out :: "16 word option"
  malloc_ok :: bool
  all_char_out :: "16 word option"
  all_char_buf :: "esp_gattc_char_elem_t list"

subsection \<open>The GAP callback\<close>

fun gap_event_handler :: "globals \<Rightarrow> esp_gap_ble_cb_event_t \<Rightarrow> globals \<times> effect list" where
  "gap_event_handler g (ESP_GAP_BLE_ADV_DATA_SET_COMPLETE_EVT status) =
     (prepare_service_data g,
      [ESP_LOGI TAG ''Advertising data set complete, starting advertising...'' [],
       esp_ble_gap_start_advertising adv_params])"
| "gap_event_handler g (ESP_GAP_BLE_ADV_START_COMPLETE_EVT status) =
     (g, [ESP_LOGI ''GAP'' ''Advertising started'' []])"
| "gap_event_handler g ESP_GAP_BLE_SCAN_RESULT_EVT =
     (g, [ESP_LOGI TAG ''Scan result...'' []])"
| "gap_event_handler g (ESP_GAP_BLE_OTHER_EVT n) = (g, [])"

subsection \<open>The GATT client callback\<close>

text \<open>
  The line logged for slot \<open>i\<close> of the result buffer. A slot the stack did not write
  holds no determined value; the line is logged all the same.
\<close>

definition char_elem_line :: "esp_gattc_char_elem_t list \<Rightarrow> nat \<Rightarrow> effect" where
  "char_elem_line buf i =
     ESP_LOGI TAG ''Char UUID: 0x%04x handle %d''
       (if i < length buf
        then [ArgNum (unat (uuid16 (uuid (buf ! i)))), ArgNum (unat (char_handle (buf ! i)))]
        else [ArgIndeterminate, ArgIndeterminate])"

text \<open>The loop \<open>for (int i = 0; i < count; i++)\<close>, from \<open>i\<close> on.\<close>

function list_chars :: "esp_gattc_char_elem_t list \<Rightarrow> nat \<Rightarrow> nat \<Rightarrow> effect list" where
  "list_chars buf count i =
     (if i < count then char_elem_line buf i # list_chars buf count (Suc i) else [])"
  by pat_completeness auto
termination
  by (relation "measure (\<lambda>(buf, count, i). count - i)") auto

declare list_chars.simps [simp del]

fun gattc_event_handler ::
  "gattc_stack \<Rightarrow> globals \<Rightarrow> esp_gattc_cb_event_t \<Rightarrow> esp_gatt_if_t \<Rightarrow> globals \<times> effect list"
where
  "gattc_event_handler st g (ESP_GATTC_REG_EVT status app_id) gattc_if =
     (let g' = g\<lparr> gattc_if_global := gattc_if \<rparr>
      in (g',
          [ESP_LOGI TAG ''GATTC Registered, starting connect... conectando ao MOT-U105'' [],
           esp_ble_gattc_open (gattc_if_global g') target_bda BLE_ADDR_TYPE_PUBLIC True]))"
| "gattc_event_handler st g (ESP_GATTC_OPEN_EVT status conn_id) gattc_if =
     (if status = ESP_GATT_OK
      then (g\<lparr> gattc_conn_id_global := conn_id, connected := True \<rparr>,
            [ESP_LOGI TAG ''GATTC connected to MOT-U105'' [],
             esp_ble_gattc_search_service gattc_if conn_id None])
      else (g,
            [ESP_LOGE TAG ''Failed to open GATTC MOT-U105 conn, status 0x%x''
               [ArgNum (unat status)]]))"
| "gattc_event_handler st g (ESP_GATTC_SEARCH_RES_EVT conn_id start_handle end_handle srvc_uuid)
       gattc_if =
     (g, if len srvc_uuid = ESP_UUID_LEN_16
         then [ESP_LOGI TAG ''Service found UUID16: 0x%04x'' [ArgNum (unat (uuid16 srvc_uuid))]]
         else [])"
| "gattc_event_handler st g (ESP_GATTC_SEARCH_CMPL_EVT status conn_id) gattc_if =
     (let count = (case attr_count_out st of None \<Rightarrow> 0 | Some c \<Rightarrow> c)
      in (g,
          [ESP_LOGI TAG ''Service search complete, now listing characteristics...'' [],
           esp_ble_gattc_get_attr_count gattc_if (gattc_conn_id_global g)
             ESP_GATT_DB_CHARACTERISTIC 0 0 0]
          @ (if count > 0
             then malloc (unat count)
               # (if malloc_ok st
                  then (let count' = (case all_char_out st of None \<Rightarrow> count | Some c \<Rightarrow> c)
                        in esp_ble_gattc_get_all_char gattc_if (gattc_conn_id_global g)
                             0 0 count 0
                           # list_chars (all_char_buf st) (unat count') 0 @ [free])
                  else [])
             else [])))"
| "gattc_event_handler st g (ESP_GATTC_NOTIFY_EVT conn_id value_len val) gattc_if =
     (g, [ESP_LOGI TAG ''Notify received, len=%d'' [ArgNum (unat value_len)],
          ESP_LOG_BUFFER_HEX TAG val value_len])"
| "gattc_event_handler st g (ESP_GATTC_DISCONNECT_EVT reason conn_id) gattc_if = (g, [])"
| "gattc_event_handler st g (ESP_GATTC_OTHER_EVT n) gattc_if = (g, [])"

subsection \<open>The GATT server callback\<close>

text \<open>\<open>ret\<close> is what \<open>esp_ble_gap_config_adv_data\<close> returns.\<close>

fun gatts_event_handler ::
  "esp_err_t \<Rightarrow> globals \<Rightarrow> esp_gatts_cb_event_t \<Rightarrow> esp_gatt_if_t \<Rightarrow> globals \<times> effect list"
where
  "gatts_event_handler ret g (ESP_GATTS_REG_EVT status app_id) gatts_if =
     (let g' = prepare_service_data g
      in (g',
          [ESP_LOGI TAG ''GATTS Registered, starting advertising...'' [],
           esp_ble_gap_set_device_name LOCAL_DEVICE_NAME,
           esp_ble_gap_config_adv_data (adv_data g')]
          @ (if ret \<noteq> 0
             then [ESP_LOGE TAG ''esp_ble_gap_config_adv_data failed: %s'' [ArgErrName ret]]
             else [])))"
| "gatts_event_handler ret g (ESP_GATTS_CONNECT_EVT conn_id) gatts_if =
     (g, [ESP_LOGI TAG ''GATTS App Mobile connected as client'' []])"
| "gatts_event_handler ret g (ESP_GATTS_DISCONNECT_EVT conn_id) gatts_if =
     (g, [ESP_LOGI TAG ''GATTS App Mobile disconnected'' []])"
| "gatts_event_handler ret g (ESP_GATTS_OTHER_EVT n) gatts_if = (g, [])"

subsection \<open>Event delivery\<close>

text \<open>
  \<open>app_main\<close> registers the three callbacks; from then on the stack calls them, one event
  at a time. An event of the program is a call of one callback with its arguments and
  the answers of the stack during that call.
\<close>

datatype event =
    GAP esp_gap_ble_cb_event_t
  | GATTC esp_gattc_cb_event_t esp_gatt_if_t gattc_stack
  | GATTS esp_gatts_cb_event_t esp_gatt_if_t esp_err_t

fun deliver :: "globals \<Rightarrow> event \<Rightarrow> globals \<times> effect list" where
  "deliver g (GAP ev) = gap_event_handler g ev"
| "deliver g (GATTC ev gattc_if st) = gattc_event_handler st g ev gattc_if"
| "deliver g (GATTS ev gatts_if ret) = gatts_event_handler ret g ev gatts_if"

fun run :: "globals \<Rightarrow> event list \<Rightarrow> globals \<times> effect list" where
  "run g [] = (g, [])"
| "run g (e # es) =
     (case deliver g e of (g', fx) \<Rightarrow> (case run g' es of (g'', fx') \<Rightarrow> (g'', fx @ fx')))"

subsection \<open>Vocabulary of the properties\<close>

text \<open>A stack that stores nothing through \<open>count\<close> and whose allocator fails.\<close>

definition silent_stack :: gattc_stack where
  "silent_stack = \<lparr> attr_count_out = None, malloc_ok = False, all_char_out = None,
     all_char_buf = [] \<rparr>"

text \<open>The connection id of a client-role open event with status OK, if the event is one.\<close>

fun open_ok_conn_id :: "event \<Rightarrow> 16 word option" where
  "open_ok_conn_id (GATTC (ESP_GATTC_OPEN_EVT status conn_id) gattc_if st) =
     (if status = ESP_GATT_OK then Some conn_id else None)"
| "open_ok_conn_id _ = None"

text \<open>The connection id of the most recent successful open of an event sequence.\<close>

fun last_open_ok :: "event list \<Rightarrow> 16 word option" where
  "last_open_ok [] = None"
| "last_open_ok (e # es) =
     (case last_open_ok es of Some c \<Rightarrow> Some c | None \<Rightarrow> open_ok_conn_id e)"

fun is_adv_data_set_complete :: "event \<Rightarrow> bool" where
  "is_adv_data_set_complete (GAP (ESP_GAP_BLE_ADV_DATA_SET_COMPLETE_EVT status)) = True"
| "is_adv_data_set_complete _ = False"

text \<open>The log lines of the characteristic listing loop.\<close>

fun is_char_line :: "effect \<Rightarrow> bool" where
  "is_char_line (ESP_LOGI tag fmt args) = (fmt = ''Char UUID: 0x%04x handle %d'')"
| "is_char_line _ = False"

text \<open>The service UUID of a client-role service-found event, if the event is one.\<close>

fun found_uuid :: "event \<Rightarrow> esp_bt_uuid_t option" where
  "found_uuid (GATTC (ESP_GATTC_SEARCH_RES_EVT conn_id start_handle end_handle srvc_uuid)
      gattc_if st) = Some srvc_uuid"
| "found_uuid _ = None"

fun is_service_found :: "event \<Rightarrow> bool" where
  "is_service_found (GATTC (ESP_GATTC_SEARCH_RES_EVT conn_id start_handle end_handle srvc_uuid)
      gattc_if st) = True"
| "is_service_found _ = False"

section \<open>Properties\<close>

subsection \<open>Auxiliary facts\<close>

lemma prepare_service_data_client_fields:
  "gattc_if_global (prepare_service_data g) = gattc_if_global g"
  "gattc_conn_id_global (prepare_service_data g) = gattc_conn_id_global g"
  "connected (prepare_service_data g) = connected g"
  by (simp_all add: prepare_service_data_def Let_def)

lemma list_chars_map: "list_chars buf count i = map (char_elem_line buf) [i..<count]"
proof (induction buf count i rule: list_chars.induct)
  case (1 buf count i)
  show ?case
  proof (cases "i < count")
    case True
    then show ?thesis
      using 1 by (subst list_chars.simps) (simp add: upt_conv_Cons)
  next
    case False
    then show ?thesis by (subst list_chars.simps) simp
  qed
qed

lemma gap_connected: "connected (fst (gap_event_handler g ev)) = connected g"
  by (cases ev) (simp_all add: prepare_service_data_client_fields)

lemma gap_conn_id: "gattc_conn_id_global (fst (gap_event_handler g ev)) = gattc_conn_id_global g"
  by (cases ev) (simp_all add: prepare_service_data_client_fields)

lemma gatts_connected: "connected (fst (gatts_event_handler ret g ev gatts_if)) = connected g"
  by (cases ev) (simp_all add: prepare_service_data_client_fields Let_def)

lemma gatts_conn_id:
  "gattc_conn_id_global (fst (gatts_event_handler ret g ev gatts_if)) = gattc_conn_id_global g"
  by (cases ev) (simp_all add: prepare_service_data_client_fields Let_def)

lemma gattc_connected:
  "connected (fst (gattc_event_handler st g ev gattc_if)) =
     (connected g \<or> (\<exists>c. open_ok_conn_id (GATTC ev gattc_if st) = Some c))"
  by (cases ev) (simp_all add: Let_def)

lemma gattc_conn_id:
  "gattc_conn_id_global (fst (gattc_event_handler st g ev gattc_if)) =
     (case open_ok_conn_id (GATTC ev gattc_if st) of None \<Rightarrow> gattc_conn_id_global g | Some c \<Rightarrow> c)"
  by (cases ev) (simp_all add: Let_def)

lemma deliver_connected:
  "connected (fst (deliver g e)) = (connected g \<or> (\<exists>c. open_ok_conn_id e = Some c))"
  by (cases e) (simp_all add: gap_connected gatts_connected gattc_connected)

lemma deliver_conn_id:
  "gattc_conn_id_global (fst (deliver g e)) =
     (case open_ok_conn_id e of None \<Rightarrow> gattc_conn_id_global g | Some c \<Rightarrow> c)"
  by (cases e) (simp_all add: gap_conn_id gatts_conn_id gattc_conn_id)

lemma run_Cons_fst: "fst (run g (e # es)) = fst (run (fst (deliver g e)) es)"
  by (simp split: prod.splits)

lemma run_Cons_snd: "snd (run g (e # es)) = snd (deliver g e) @ snd (run (fst (deliver g e)) es)"
  by (simp split: prod.splits)

lemma run_connected:
  "connected (fst (run g es)) = (connected g \<or> (\<exists>c. last_open_ok es = Some c))"
proof (induction es arbitrary: g)
  case Nil
  show ?case by simp
next
  case (Cons e es)
  show ?case
    unfolding run_Cons_fst Cons.IH deliver_connected
    by (auto split: option.splits)
qed

lemma run_conn_id:
  "gattc_conn_id_global (fst (run g es)) =
     (case last_open_ok es of None \<Rightarrow> gattc_conn_id_global g | Some c \<Rightarrow> c)"
proof (induction es arbitrary: g)
  case Nil
  show ?case by simp
next
  case (Cons e es)
  show ?case
    unfolding run_Cons_fst Cons.IH deliver_conn_id
    by (auto split: option.splits)
qed

subsection \<open>Service data\<close>

lemma service_data_payload_length: "length service_data_payload = 20"
  by (simp add: service_data_payload_def)

lemma prepare_service_data_bytes:
  assumes "length (service_data g) = 22"
  shows "service_data (prepare_service_data g) = [0xC5, 0xC1] @ service_data_payload"
proof -
  obtain a b r where sd: "service_data g = a # b # r"
    using assms by (cases "service_data g"; cases "tl (service_data g)") auto
  then have r: "length r = 20" using assms by simp
  have lo: "(ucast (service_data_uuid AND 0xFF) :: 8 word) = 0xC5"
    by (simp add: service_data_uuid_def)
  have hi: "(ucast (drop_bit 8 service_data_uuid AND 0xFF) :: 8 word) = 0xC1"
    by (simp add: service_data_uuid_def)
  show ?thesis
    using r by (simp add: prepare_service_data_def memcpy_at_def sd lo hi
        service_data_payload_length)
qed

text \<open>
  C8. Whatever the 22-byte buffer held before, after \<open>prepare_service_data\<close> it is
  the two bytes of the 16-bit service-data UUID, low byte first, followed by the captured
  payload unchanged: 22 bytes, \<open>C5 C1\<close> and then the 20 payload bytes; the two leading
  bytes read as a little-endian number give back the UUID 0xC1C5.
\<close>

theorem prepare_service_data_record:
  assumes "length (service_data g) = 2 + length service_data_payload"
  shows "service_data (prepare_service_data g) = [0xC5, 0xC1] @ service_data_payload
    \<and> length (service_data (prepare_service_data g)) = 22
    \<and> take 2 (service_data (prepare_service_data g)) = [0xC5, 0xC1]
    \<and> drop 2 (service_data (prepare_service_data g)) = service_data_payload
    \<and> length service_data_payload = 20
    \<and> unat (service_data (prepare_service_data g) ! 0)
        + 256 * unat (service_data (prepare_service_data g) ! 1) = unat service_data_uuid
    \<and> unat service_data_uuid = 0xC1C5"
proof -
  have l: "length (service_data g) = 22"
    using assms by (simp add: service_data_payload_length)
  have e: "service_data (prepare_service_data g) = [0xC5, 0xC1] @ service_data_payload"
    by (rule prepare_service_data_bytes [OF l])
  have u: "unat service_data_uuid = 0xC1C5"
    by (simp add: service_data_uuid_def)
  show ?thesis
    unfolding e using u by (simp add: service_data_payload_length)
qed

theorem prepare_service_data_record_witness:
  "length (service_data init_globals) = 2 + length service_data_payload
   \<and> service_data (prepare_service_data init_globals) =
       [0xC5, 0xC1, 0xFE, 0x98, 0x00, 0x30, 0x39, 0x44, 0xE4, 0x0C, 0x7F, 0x08, 0x1D,
        0x04, 0x00, 0x00, 0x04, 0x46, 0x60, 0x09, 0x00, 0x0A]"
proof -
  have h: "length (service_data init_globals) = 2 + length service_data_payload"
    by (simp add: init_globals_def)
  show ?thesis
    using h prepare_service_data_record [OF h] by (simp add: service_data_payload_def)
qed

subsection \<open>Client role: connection state\<close>

text \<open>
  C1 (as the code has it). A client-role open event with status OK sets \<open>connected\<close>;
  an open event with any other status and a disconnect event leave the flag as it was, and
  no event of any role clears it. So after a sequence of events the flag is true exactly
  when it was true before or the sequence holds a successful open; started from the initial
  globals, exactly when the sequence holds a successful open.
\<close>

theorem connected_only_ever_set:
  "connected (fst (gattc_event_handler st g (ESP_GATTC_OPEN_EVT status conn_id) gattc_if)) =
     (if status = ESP_GATT_OK then True else connected g)
   \<and> connected (fst (gattc_event_handler st g (ESP_GATTC_DISCONNECT_EVT reason conn_id) gattc_if)) =
       connected g
   \<and> connected (fst (deliver g e)) = (connected g \<or> (\<exists>c. open_ok_conn_id e = Some c))
   \<and> connected (fst (run g es)) = (connected g \<or> (\<exists>c. last_open_ok es = Some c))
   \<and> connected (fst (run init_globals es)) = (\<exists>c. last_open_ok es = Some c)"
proof -
  have a: "connected (fst (run init_globals es)) = (\<exists>c. last_open_ok es = Some c)"
    unfolding run_connected by (simp add: init_globals_def)
  show ?thesis
    using a by (simp add: deliver_connected run_connected)
qed

text \<open>
  C1 as stated fails: after a successful open, a disconnect event (first sequence) or a
  failed open (second sequence) leaves \<open>connected\<close> true.
\<close>

theorem connected_after_disconnect_counterexample:
  "connected (fst (run init_globals
     [GATTC (ESP_GATTC_OPEN_EVT ESP_GATT_OK 5) 3 silent_stack,
      GATTC (ESP_GATTC_DISCONNECT_EVT 0x13 5) 3 silent_stack]))
   \<and> connected (fst (run init_globals
     [GATTC (ESP_GATTC_OPEN_EVT ESP_GATT_OK 5) 3 silent_stack,
      GATTC (ESP_GATTC_OPEN_EVT 0x85 0) 3 silent_stack]))"
  by (simp add: ESP_GATT_OK_def)

text \<open>
  C4 (as the code has it). An open event with a status other than OK changes no global:
  \<open>connected\<close> and the stored connection id keep the values they had. The handler
  makes one call, the error log line carrying the status received; it issues no service
  search and no new open. After registration and a failed first open the flag is false and
  the stored connection id is 0.
\<close>

theorem failed_open_keeps_globals:
  assumes "status \<noteq> ESP_GATT_OK"
  shows "gattc_event_handler st g (ESP_GATTC_OPEN_EVT status conn_id) gattc_if =
      (g, [ESP_LOGE TAG ''Failed to open GATTC MOT-U105 conn, status 0x%x''
             [ArgNum (unat status)]])
    \<and> requests (snd (gattc_event_handler st g (ESP_GATTC_OPEN_EVT status conn_id) gattc_if)) = []
    \<and> run init_globals [GATTC (ESP_GATTC_REG_EVT reg_st app_id) gattc_if st,
         GATTC (ESP_GATTC_OPEN_EVT status conn_id) gattc_if st] =
       (init_globals\<lparr> gattc_if_global := gattc_if \<rparr>,
        [ESP_LOGI TAG ''GATTC Registered, starting connect... conectando ao MOT-U105'' [],
         esp_ble_gattc_open gattc_if target_bda BLE_ADDR_TYPE_PUBLIC True,
         ESP_LOGE TAG ''Failed to open GATTC MOT-U105 conn, status 0x%x''
           [ArgNum (unat status)]])
    \<and> connected (init_globals\<lparr> gattc_if_global := gattc_if \<rparr>) = False
    \<and> gattc_conn_id_global (init_globals\<lparr> gattc_if_global := gattc_if \<rparr>) = 0"
  using assms by (simp add: requests_def Let_def init_globals_def)

theorem failed_open_keeps_globals_witness:
  "(0x85 :: 32 word) \<noteq> ESP_GATT_OK
   \<and> gattc_event_handler silent_stack init_globals (ESP_GATTC_OPEN_EVT 0x85 0) 3 =
      (init_globals, [ESP_LOGE TAG ''Failed to open GATTC MOT-U105 conn, status 0x%x''
             [ArgNum 133]])"
proof -
  have h: "(0x85 :: 32 word) \<noteq> ESP_GATT_OK" by (simp add: ESP_GATT_OK_def)
  show ?thesis
    using h failed_open_keeps_globals [OF h, of silent_stack init_globals 0 3] by simp
qed

text \<open>
  C4 as stated fails: when an open with status OK came before, the failed open leaves
  \<open>connected\<close> true and the stored connection id at the non-zero value 5.
\<close>

theorem failed_open_after_open_counterexample:
  "connected (fst (run init_globals
     [GATTC (ESP_GATTC_REG_EVT 0 0) 3 silent_stack,
      GATTC (ESP_GATTC_OPEN_EVT ESP_GATT_OK 5) 3 silent_stack,
      GATTC (ESP_GATTC_OPEN_EVT 0x85 0) 3 silent_stack]))
   \<and> gattc_conn_id_global (fst (run init_globals
     [GATTC (ESP_GATTC_REG_EVT 0 0) 3 silent_stack,
      GATTC (ESP_GATTC_OPEN_EVT ESP_GATT_OK 5) 3 silent_stack,
      GATTC (ESP_GATTC_OPEN_EVT 0x85 0) 3 silent_stack])) = 5"
  by (simp add: ESP_GATT_OK_def Let_def)

text \<open>
  C5. On the registration event the handler stores the interface and asks the stack to open
  a connection to \<open>target_bda\<close> (public address, direct). On an open event with status
  OK it stores the connection id of the event, sets \<open>connected\<close> and asks for a
  service search on that connection with a null filter. Registration followed by a
  successful open therefore produces exactly these two requests, with no other event
  needed.
\<close>

theorem register_opens_and_open_ok_searches:
  "gattc_event_handler st g (ESP_GATTC_REG_EVT status app_id) gattc_if =
     (g\<lparr> gattc_if_global := gattc_if \<rparr>,
      [ESP_LOGI TAG ''GATTC Registered, starting connect... conectando ao MOT-U105'' [],
       esp_ble_gattc_open gattc_if target_bda BLE_ADDR_TYPE_PUBLIC True])
   \<and> gattc_event_handler st g (ESP_GATTC_OPEN_EVT ESP_GATT_OK conn_id) gattc_if =
     (g\<lparr> gattc_conn_id_global := conn_id, connected := True \<rparr>,
      [ESP_LOGI TAG ''GATTC connected to MOT-U105'' [],
       esp_ble_gattc_search_service gattc_if conn_id None])
   \<and> requests (snd (run init_globals
        [GATTC (ESP_GATTC_REG_EVT status app_id) gattc_if st,
         GATTC (ESP_GATTC_OPEN_EVT ESP_GATT_OK conn_id) gattc_if' st'])) =
      [esp_ble_gattc_open gattc_if target_bda BLE_ADDR_TYPE_PUBLIC True,
       esp_ble_gattc_search_service gattc_if' conn_id None]
   \<and> connected (fst (run init_globals
        [GATTC (ESP_GATTC_REG_EVT status app_id) gattc_if st,
         GATTC (ESP_GATTC_OPEN_EVT ESP_GATT_OK conn_id) gattc_if' st']))
   \<and> gattc_conn_id_global (fst (run init_globals
        [GATTC (ESP_GATTC_REG_EVT status app_id) gattc_if st,
         GATTC (ESP_GATTC_OPEN_EVT ESP_GATT_OK conn_id) gattc_if' st'])) = conn_id
   \<and> target_bda = [0xFE, 0x98, 0x00, 0x30, 0x39, 0x45]"
  by (simp add: requests_def Let_def target_bda_def)

text \<open>
  C9. A server-role connect or disconnect event changes no global (so the client-role
  interface, connection id and \<open>connected\<close> flag stay as they were) and makes no call
  but a log line: no open request is issued.
\<close>

theorem server_connect_leaves_client_alone:
  "fst (gatts_event_handler ret g (ESP_GATTS_CONNECT_EVT conn_id) gatts_if) = g
   \<and> requests (snd (gatts_event_handler ret g (ESP_GATTS_CONNECT_EVT conn_id) gatts_if)) = []
   \<and> fst (gatts_event_handler ret g (ESP_GATTS_DISCONNECT_EVT conn_id) gatts_if) = g
   \<and> requests (snd (gatts_event_handler ret g (ESP_GATTS_DISCONNECT_EVT conn_id) gatts_if)) = []
   \<and> gattc_if_global (fst (deliver g (GATTS (ESP_GATTS_CONNECT_EVT conn_id) gatts_if ret))) =
       gattc_if_global g
   \<and> gattc_conn_id_global (fst (deliver g (GATTS (ESP_GATTS_CONNECT_EVT conn_id) gatts_if ret))) =
       gattc_conn_id_global g
   \<and> connected (fst (deliver g (GATTS (ESP_GATTS_CONNECT_EVT conn_id) gatts_if ret))) =
       connected g"
  by (simp add: requests_def)

text \<open>
  C10. The handler of a successful open stores the connection id of the event and sets
  \<open>connected\<close> in the same step; after any event sequence from the initial globals, if
  \<open>connected\<close> is true then the stored connection id is that of the most recent
  successful open of the sequence.
\<close>

theorem connected_with_conn_id:
  "gattc_event_handler st g (ESP_GATTC_OPEN_EVT ESP_GATT_OK conn_id) gattc_if =
     (g\<lparr> gattc_conn_id_global := conn_id, connected := True \<rparr>,
      [ESP_LOGI TAG ''GATTC connected to MOT-U105'' [],
       esp_ble_gattc_search_service gattc_if conn_id None])
   \<and> (connected (fst (run init_globals es)) \<longrightarrow>
        last_open_ok es = Some (gattc_conn_id_global (fst (run init_globals es))))"
proof -
  have "last_open_ok es = Some (gattc_conn_id_global (fst (run init_globals es)))"
    if "connected (fst (run init_globals es))"
  proof -
    from that obtain c where c: "last_open_ok es = Some c"
      unfolding run_connected by (auto simp: init_globals_def)
    then show ?thesis
      by (simp add: run_conn_id)
  qed
  then show ?thesis by simp
qed

theorem connected_with_conn_id_witness:
  "connected (fst (run init_globals
      [GATTC (ESP_GATTC_OPEN_EVT ESP_GATT_OK 5) 3 silent_stack,
       GATTC (ESP_GATTC_OPEN_EVT 0x85 6) 3 silent_stack,
       GATTC (ESP_GATTC_OPEN_EVT ESP_GATT_OK 7) 3 silent_stack,
       GATTC (ESP_GATTC_DISCONNECT_EVT 0x13 7) 3 silent_stack]))
   \<and> gattc_conn_id_global (fst (run init_globals
      [GATTC (ESP_GATTC_OPEN_EVT ESP_GATT_OK 5) 3 silent_stack,
       GATTC (ESP_GATTC_OPEN_EVT 0x85 6) 3 silent_stack,
       GATTC (ESP_GATTC_OPEN_EVT ESP_GATT_OK 7) 3 silent_stack,
       GATTC (ESP_GATTC_DISCONNECT_EVT 0x13 7) 3 silent_stack])) = 7
   \<and> last_open_ok
      [GATTC (ESP_GATTC_OPEN_EVT ESP_GATT_OK 5) 3 silent_stack,
       GATTC (ESP_GATTC_OPEN_EVT 0x85 6) 3 silent_stack,
       GATTC (ESP_GATTC_OPEN_EVT ESP_GATT_OK 7) 3 silent_stack,
       GATTC (ESP_GATTC_DISCONNECT_EVT 0x13 7) 3 silent_stack] = Some 7"
proof -
  let ?es = "[GATTC (ESP_GATTC_OPEN_EVT ESP_GATT_OK 5) 3 silent_stack,
       GATTC (ESP_GATTC_OPEN_EVT 0x85 6) 3 silent_stack,
       GATTC (ESP_GATTC_OPEN_EVT ESP_GATT_OK 7) 3 silent_stack,
       GATTC (ESP_GATTC_DISCONNECT_EVT 0x13 7) 3 silent_stack]"
  have h: "connected (fst (run init_globals ?es))"
    by (simp add: ESP_GATT_OK_def)
  have "last_open_ok ?es = Some (gattc_conn_id_global (fst (run init_globals ?es)))"
    using connected_with_conn_id [of silent_stack init_globals 0 0 ?es] h by blast
  moreover have "gattc_conn_id_global (fst (run init_globals ?es)) = 7"
    by (simp add: ESP_GATT_OK_def)
  ultimately show ?thesis using h by simp
qed

subsection \<open>Advertising\<close>

lemma gap_starts:
  "length (filter is_start_advertising (snd (gap_event_handler g ev))) =
     (if is_adv_data_set_complete (GAP ev) then 1 else 0)"
  by (cases ev) simp_all

lemma list_chars_no_start: "filter is_start_advertising (list_chars buf count i) = []"
  by (simp add: list_chars_map char_elem_line_def filter_empty_conv)

lemma gattc_starts:
  "filter is_start_advertising (snd (gattc_event_handler st g ev gattc_if)) = []"
  by (cases ev) (simp_all add: Let_def list_chars_no_start)

lemma gatts_starts:
  "filter is_start_advertising (snd (gatts_event_handler ret g ev gatts_if)) = []"
  by (cases ev) (simp_all add: Let_def)

lemma deliver_starts:
  "length (filter is_start_advertising (snd (deliver g e))) =
     (if is_adv_data_set_complete e then 1 else 0)"
  by (cases e) (simp_all add: gap_starts gattc_starts gatts_starts)

lemma run_starts:
  "length (filter is_start_advertising (snd (run g es))) =
     length (filter is_adv_data_set_complete es)"
proof (induction es arbitrary: g)
  case Nil
  show ?case by simp
next
  case (Cons e es)
  show ?case
    unfolding run_Cons_snd by (simp add: Cons.IH deliver_starts)
qed

text \<open>
  C6 (as the code has it). The handler of the advertising-data-set-complete event asks the
  stack to start advertising, whatever status the event carries, and no other handler
  does. Each delivery of that event gives one start request: in the trace of any event
  sequence, of any interleaving of the three roles, the number of start requests is the
  number of completion events delivered, so there is none before the first completion.
\<close>

theorem start_advertising_once_per_completion:
  "gap_event_handler g (ESP_GAP_BLE_ADV_DATA_SET_COMPLETE_EVT status) =
     (prepare_service_data g,
      [ESP_LOGI TAG ''Advertising data set complete, starting advertising...'' [],
       esp_ble_gap_start_advertising adv_params])
   \<and> length (filter is_start_advertising (snd (deliver g e))) =
       (if is_adv_data_set_complete e then 1 else 0)
   \<and> length (filter is_start_advertising (snd (run g es))) =
       length (filter is_adv_data_set_complete es)"
  by (simp add: deliver_starts run_starts)

text \<open>
  C6 as stated fails: when the completion event is delivered a second time, advertising is
  started a second time.
\<close>

theorem start_advertising_twice_counterexample:
  "length (filter is_start_advertising (snd (run init_globals
     [GATTS (ESP_GATTS_REG_EVT 0 0) 4 0,
      GAP (ESP_GAP_BLE_ADV_DATA_SET_COMPLETE_EVT 0),
      GAP (ESP_GAP_BLE_ADV_DATA_SET_COMPLETE_EVT 0)]))) = 2"
  by (simp add: Let_def)

subsection \<open>Client role: discovery\<close>

lemma is_char_line_char_elem_line: "is_char_line (char_elem_line buf i)"
  by (simp add: char_elem_line_def)

lemma char_lines_of_list_chars:
  "length (filter is_char_line (list_chars buf count i)) = count - i"
  by (simp add: list_chars_map is_char_line_char_elem_line)

text \<open>
  C7. On search-complete: when the count query leaves the count at 0 (it stores 0 or
  nothing) the handler stops after the query, with no allocation, no fetch and no
  characteristic line; when the count is positive and the allocation fails it stops after
  the allocation, with no fetch; when the fetch is made with a buffer for \<open>n\<close> entries and
  stores \<open>m\<close> through the count pointer, the loop logs \<open>m\<close> lines, one for each slot
  below \<open>m\<close>, whatever \<open>n\<close> was. In every case the globals are unchanged and the
  handler returns.
\<close>

theorem char_enumeration_guards:
  "(attr_count_out st = None \<or> attr_count_out st = Some 0 \<longrightarrow>
      gattc_event_handler st g (ESP_GATTC_SEARCH_CMPL_EVT status conn_id) gattc_if =
        (g, [ESP_LOGI TAG ''Service search complete, now listing characteristics...'' [],
             esp_ble_gattc_get_attr_count gattc_if (gattc_conn_id_global g)
               ESP_GATT_DB_CHARACTERISTIC 0 0 0]))
   \<and> (attr_count_out st = Some n \<and> 0 < n \<and> \<not> malloc_ok st \<longrightarrow>
      gattc_event_handler st g (ESP_GATTC_SEARCH_CMPL_EVT status conn_id) gattc_if =
        (g, [ESP_LOGI TAG ''Service search complete, now listing characteristics...'' [],
             esp_ble_gattc_get_attr_count gattc_if (gattc_conn_id_global g)
               ESP_GATT_DB_CHARACTERISTIC 0 0 0,
             malloc (unat n)]))
   \<and> (attr_count_out st = Some n \<and> 0 < n \<and> malloc_ok st \<and> all_char_out st = Some m \<longrightarrow>
      gattc_event_handler st g (ESP_GATTC_SEARCH_CMPL_EVT status conn_id) gattc_if =
        (g, [ESP_LOGI TAG ''Service search complete, now listing characteristics...'' [],
             esp_ble_gattc_get_attr_count gattc_if (gattc_conn_id_global g)
               ESP_GATT_DB_CHARACTERISTIC 0 0 0,
             malloc (unat n),
             esp_ble_gattc_get_all_char gattc_if (gattc_conn_id_global g) 0 0 n 0]
            @ map (char_elem_line (all_char_buf st)) [0..<unat m] @ [free])
      \<and> length (filter is_char_line
            (snd (gattc_event_handler st g (ESP_GATTC_SEARCH_CMPL_EVT status conn_id) gattc_if)))
          = unat m)"
  by (auto simp: Let_def list_chars_map is_char_line_char_elem_line)

theorem char_enumeration_guards_witness:
  "gattc_event_handler
      \<lparr> attr_count_out = Some 0, malloc_ok = True, all_char_out = Some 4, all_char_buf = [] \<rparr>
      init_globals (ESP_GATTC_SEARCH_CMPL_EVT 0 5) 3 =
     (init_globals,
      [ESP_LOGI TAG ''Service search complete, now listing characteristics...'' [],
       esp_ble_gattc_get_attr_count 3 0 ESP_GATT_DB_CHARACTERISTIC 0 0 0])
   \<and> gattc_event_handler
      \<lparr> attr_count_out = Some 3, malloc_ok = False, all_char_out = Some 2, all_char_buf = [] \<rparr>
      init_globals (ESP_GATTC_SEARCH_CMPL_EVT 0 5) 3 =
     (init_globals,
      [ESP_LOGI TAG ''Service search complete, now listing characteristics...'' [],
       esp_ble_gattc_get_attr_count 3 0 ESP_GATT_DB_CHARACTERISTIC 0 0 0,
       malloc 3])
   \<and> length (filter is_char_line (snd (gattc_event_handler
      \<lparr> attr_count_out = Some 3, malloc_ok = True, all_char_out = Some 2,
        all_char_buf = [\<lparr> char_handle = 0x2A, properties = 0x10,
                          uuid = \<lparr> len = 2, uuid16 = 0x2A1C \<rparr> \<rparr>,
                        \<lparr> char_handle = 0x2D, properties = 0x02,
                          uuid = \<lparr> len = 2, uuid16 = 0x2A1D \<rparr> \<rparr>] \<rparr>
      init_globals (ESP_GATTC_SEARCH_CMPL_EVT 0 5) 3))) = 2"
proof -
  let ?s0 = "\<lparr> attr_count_out = Some 0, malloc_ok = True, all_char_out = Some (4 :: 16 word),
    all_char_buf = [] \<rparr>"
  let ?s1 = "\<lparr> attr_count_out = Some 3, malloc_ok = False, all_char_out = Some (2 :: 16 word),
    all_char_buf = [] \<rparr>"
  let ?s2 = "\<lparr> attr_count_out = Some 3, malloc_ok = True, all_char_out = Some (2 :: 16 word),
        all_char_buf = [\<lparr> char_handle = 0x2A, properties = 0x10,
                          uuid = \<lparr> len = 2, uuid16 = 0x2A1C \<rparr> \<rparr>,
                        \<lparr> char_handle = 0x2D, properties = 0x02,
                          uuid = \<lparr> len = 2, uuid16 = 0x2A1D \<rparr> \<rparr>] \<rparr>"
  have a: "attr_count_out ?s0 = None \<or> attr_count_out ?s0 = Some 0" by simp
  have b: "attr_count_out ?s1 = Some 3 \<and> (0 :: 16 word) < 3 \<and> \<not> malloc_ok ?s1" by simp
  have c: "attr_count_out ?s2 = Some 3 \<and> (0 :: 16 word) < 3 \<and> malloc_ok ?s2
      \<and> all_char_out ?s2 = Some 2" by simp
  note t0 = char_enumeration_guards [of ?s0 init_globals 0 5 3 3 2, THEN conjunct1, rule_format, OF a]
  note t1 = char_enumeration_guards [of ?s1 init_globals 0 5 3 3 2, THEN conjunct2, THEN conjunct1,
      rule_format, OF b]
  note t2 = char_enumeration_guards [of ?s2 init_globals 0 5 3 3 2, THEN conjunct2, THEN conjunct2,
      rule_format, OF c, THEN conjunct2]
  show ?thesis
    using t0 t1 t2 by (simp add: init_globals_def)
qed

lemma run_service_found:
  "list_all is_service_found es \<Longrightarrow>
   run g es = (g, concat (map (\<lambda>e. case found_uuid e of None \<Rightarrow> []
      | Some u \<Rightarrow> (if len u = ESP_UUID_LEN_16
          then [ESP_LOGI TAG ''Service found UUID16: 0x%04x'' [ArgNum (unat (uuid16 u))]]
          else [])) es))"
proof (induction es arbitrary: g)
  case Nil
  show ?case by simp
next
  case (Cons e es)
  from Cons.prems obtain c s h u gif st
    where e: "e = GATTC (ESP_GATTC_SEARCH_RES_EVT c s h u) gif st"
    by (cases e rule: is_service_found.cases) auto
  from Cons.prems have "list_all is_service_found es" by simp
  then show ?case
    using Cons.IH by (simp add: e)
qed

text \<open>
  C3 (as the code has it). A service-found event changes no global and appends nothing:
  when the UUID of the service has the 16-bit length the handler logs its 16-bit value,
  otherwise it does nothing; the handle range of the event is not used. A sequence of
  service-found events leaves the globals as they were and produces the log lines of its
  16-bit services in the order of delivery.
\<close>

theorem service_found_only_logged:
  "gattc_event_handler st g (ESP_GATTC_SEARCH_RES_EVT conn_id start_handle end_handle srvc_uuid)
      gattc_if =
     (g, if len srvc_uuid = ESP_UUID_LEN_16
         then [ESP_LOGI TAG ''Service found UUID16: 0x%04x'' [ArgNum (unat (uuid16 srvc_uuid))]]
         else [])
   \<and> (list_all is_service_found es \<longrightarrow>
        run g es = (g, concat (map (\<lambda>e. case found_uuid e of None \<Rightarrow> []
          | Some u \<Rightarrow> (if len u = ESP_UUID_LEN_16
              then [ESP_LOGI TAG ''Service found UUID16: 0x%04x'' [ArgNum (unat (uuid16 u))]]
              else [])) es)))"
  using run_service_found [of es g] by simp

theorem service_found_only_logged_witness:
  "run init_globals
     [GATTC (ESP_GATTC_SEARCH_RES_EVT 5 1 9 \<lparr> len = 2, uuid16 = 0x1800 \<rparr>) 3 silent_stack,
      GATTC (ESP_GATTC_SEARCH_RES_EVT 5 10 20 \<lparr> len = 16, uuid16 = 0x34fb \<rparr>) 3 silent_stack,
      GATTC (ESP_GATTC_SEARCH_RES_EVT 5 21 30 \<lparr> len = 2, uuid16 = 0x1809 \<rparr>) 3 silent_stack] =
     (init_globals,
      [ESP_LOGI TAG ''Service found UUID16: 0x%04x'' [ArgNum 0x1800],
       ESP_LOGI TAG ''Service found UUID16: 0x%04x'' [ArgNum 0x1809]])"
proof -
  let ?es = "[GATTC (ESP_GATTC_SEARCH_RES_EVT 5 1 9 \<lparr> len = 2, uuid16 = 0x1800 \<rparr>) 3 silent_stack,
      GATTC (ESP_GATTC_SEARCH_RES_EVT 5 10 20 \<lparr> len = 16, uuid16 = 0x34fb \<rparr>) 3 silent_stack,
      GATTC (ESP_GATTC_SEARCH_RES_EVT 5 21 30 \<lparr> len = 2, uuid16 = 0x1809 \<rparr>) 3 silent_stack]"
  have h: "list_all is_service_found ?es" by simp
  show ?thesis
    using service_found_only_logged [of silent_stack init_globals 0 0 0 "\<lparr> len = 2, uuid16 = 0 \<rparr>" 0
        ?es, THEN conjunct2, rule_format, OF h]
    by (simp add: ESP_UUID_LEN_16_def)
qed

text \<open>
  C3 as stated fails: a service-found event with a 128-bit UUID leaves neither a change of
  the globals nor a call, and one with a 16-bit UUID leaves the globals as they were; no
  tuple is kept.
\<close>

theorem service_found_not_recorded_counterexample:
  "deliver init_globals
     (GATTC (ESP_GATTC_SEARCH_RES_EVT 5 10 20 \<lparr> len = 16, uuid16 = 0x34fb \<rparr>) 3 silent_stack) =
     (init_globals, [])
   \<and> fst (deliver init_globals
     (GATTC (ESP_GATTC_SEARCH_RES_EVT 5 21 30 \<lparr> len = 2, uuid16 = 0x1809 \<rparr>) 3 silent_stack)) =
     init_globals"
  by (simp add: ESP_UUID_LEN_16_def)

lemma requests_list_chars: "requests (list_chars buf count i) = []"
  by (simp add: requests_def list_chars_map char_elem_line_def filter_empty_conv)

lemma search_cmpl_requests:
  "requests (snd (gattc_event_handler st g (ESP_GATTC_SEARCH_CMPL_EVT status c) gattc_if)) =
     esp_ble_gattc_get_attr_count gattc_if (gattc_conn_id_global g)
       ESP_GATT_DB_CHARACTERISTIC 0 0 0
     # (if 0 < (case attr_count_out st of None \<Rightarrow> 0 | Some n \<Rightarrow> n)
        then malloc (unat (case attr_count_out st of None \<Rightarrow> 0 | Some n \<Rightarrow> n))
          # (if malloc_ok st
             then [esp_ble_gattc_get_all_char gattc_if (gattc_conn_id_global g) 0 0
                     (case attr_count_out st of None \<Rightarrow> 0 | Some n \<Rightarrow> n) 0,
                   free]
             else [])
        else [])"
proof -
  have r: "requests (xs @ ys) = requests xs @ requests ys" for xs ys
    by (simp add: requests_def)
  have c: "requests (x # xs) = (if is_log x then requests xs else x # requests xs)" for x xs
    by (simp add: requests_def)
  have n: "requests [] = []"
    by (simp add: requests_def)
  show ?thesis
    by (simp add: Let_def r c n requests_list_chars)
qed

text \<open>
  C2 (as the code has it). The disconnect event changes nothing and makes no call, so every
  event delivered after it is handled as if it had not been delivered. The calls of the
  client-role handler do not depend on \<open>connected\<close>, and those of the discovery events
  do not depend on the connection id the event carries. Discovery events leave the globals
  unchanged (no attribute table is kept). Search-complete always queries the attribute
  count on the stored connection id; when the count the query leaves is positive it
  allocates, and when the allocation succeeds it fetches the characteristics on the stored
  connection id and frees the buffer; when the count is 0 it makes no further request, and
  when the allocation fails it makes none after the allocation.
\<close>

theorem discovery_events_not_gated:
  "gattc_event_handler st g (ESP_GATTC_DISCONNECT_EVT reason conn_id) gattc_if = (g, [])
   \<and> deliver (fst (deliver g (GATTC (ESP_GATTC_DISCONNECT_EVT reason conn_id) gattc_if st))) e =
       deliver g e
   \<and> snd (gattc_event_handler st' (g\<lparr> connected := b \<rparr>) ev gattc_if') =
       snd (gattc_event_handler st' g ev gattc_if')
   \<and> gattc_event_handler st' g (ESP_GATTC_SEARCH_CMPL_EVT status c) gattc_if' =
       gattc_event_handler st' g (ESP_GATTC_SEARCH_CMPL_EVT status' c') gattc_if'
   \<and> gattc_event_handler st' g (ESP_GATTC_SEARCH_RES_EVT c sh eh u) gattc_if' =
       gattc_event_handler st' g (ESP_GATTC_SEARCH_RES_EVT c' sh' eh' u) gattc_if'
   \<and> fst (gattc_event_handler st' g (ESP_GATTC_SEARCH_CMPL_EVT status c) gattc_if') = g
   \<and> fst (gattc_event_handler st' g (ESP_GATTC_SEARCH_RES_EVT c sh eh u) gattc_if') = g
   \<and> take 1 (requests (snd (gattc_event_handler st' g (ESP_GATTC_SEARCH_CMPL_EVT status c)
        gattc_if'))) =
       [esp_ble_gattc_get_attr_count gattc_if' (gattc_conn_id_global g)
          ESP_GATT_DB_CHARACTERISTIC 0 0 0]
   \<and> requests (snd (gattc_event_handler st' g (ESP_GATTC_SEARCH_CMPL_EVT status c)
        gattc_if')) =
       esp_ble_gattc_get_attr_count gattc_if' (gattc_conn_id_global g)
         ESP_GATT_DB_CHARACTERISTIC 0 0 0
       # (if 0 < (case attr_count_out st' of None \<Rightarrow> 0 | Some n \<Rightarrow> n)
          then malloc (unat (case attr_count_out st' of None \<Rightarrow> 0 | Some n \<Rightarrow> n))
            # (if malloc_ok st'
               then [esp_ble_gattc_get_all_char gattc_if' (gattc_conn_id_global g) 0 0
                       (case attr_count_out st' of None \<Rightarrow> 0 | Some n \<Rightarrow> n) 0,
                     free]
               else [])
          else [])
   \<and> requests (snd (deliver
        (fst (deliver g (GATTC (ESP_GATTC_DISCONNECT_EVT reason conn_id) gattc_if st)))
        (GATTC (ESP_GATTC_SEARCH_CMPL_EVT status c) gattc_if'
           \<lparr> attr_count_out = Some 2, malloc_ok = True, all_char_out = ao,
             all_char_buf = buf \<rparr>))) =
       [esp_ble_gattc_get_attr_count gattc_if' (gattc_conn_id_global g)
          ESP_GATT_DB_CHARACTERISTIC 0 0 0,
        malloc 2,
        esp_ble_gattc_get_all_char gattc_if' (gattc_conn_id_global g) 0 0 2 0,
        free]
   \<and> requests (snd (deliver
        (fst (deliver g (GATTC (ESP_GATTC_DISCONNECT_EVT reason conn_id) gattc_if st)))
        (GATTC (ESP_GATTC_SEARCH_CMPL_EVT status c) gattc_if'
           \<lparr> attr_count_out = Some 2, malloc_ok = False, all_char_out = ao,
             all_char_buf = buf \<rparr>))) =
       [esp_ble_gattc_get_attr_count gattc_if' (gattc_conn_id_global g)
          ESP_GATT_DB_CHARACTERISTIC 0 0 0,
        malloc 2]"
proof -
  let ?dis = "GATTC (ESP_GATTC_DISCONNECT_EVT reason conn_id) gattc_if st"
  have c1: "gattc_event_handler st g (ESP_GATTC_DISCONNECT_EVT reason conn_id) gattc_if = (g, [])"
    by simp
  have d: "fst (deliver g ?dis) = g"
    by simp
  have c2: "deliver (fst (deliver g ?dis)) e = deliver g e"
    unfolding d by (rule refl)
  have c3: "snd (gattc_event_handler st' (g\<lparr> connected := b \<rparr>) ev gattc_if') =
       snd (gattc_event_handler st' g ev gattc_if')"
    by (cases ev) (simp_all add: Let_def)
  have c4: "gattc_event_handler st' g (ESP_GATTC_SEARCH_CMPL_EVT status c) gattc_if' =
       gattc_event_handler st' g (ESP_GATTC_SEARCH_CMPL_EVT status' c') gattc_if'"
    by (simp add: Let_def)
  have c5: "gattc_event_handler st' g (ESP_GATTC_SEARCH_RES_EVT c sh eh u) gattc_if' =
       gattc_event_handler st' g (ESP_GATTC_SEARCH_RES_EVT c' sh' eh' u) gattc_if'"
    by simp
  have c6: "fst (gattc_event_handler st' g (ESP_GATTC_SEARCH_CMPL_EVT status c) gattc_if') = g"
    by (simp add: Let_def)
  have c7: "fst (gattc_event_handler st' g (ESP_GATTC_SEARCH_RES_EVT c sh eh u) gattc_if') = g"
    by simp
  have c8: "take 1 (requests (snd (gattc_event_handler st' g (ESP_GATTC_SEARCH_CMPL_EVT status c)
        gattc_if'))) =
       [esp_ble_gattc_get_attr_count gattc_if' (gattc_conn_id_global g)
          ESP_GATT_DB_CHARACTERISTIC 0 0 0]"
    unfolding search_cmpl_requests by simp
  note c9 = search_cmpl_requests [of st' g status c gattc_if']
  have c10: "requests (snd (deliver (fst (deliver g ?dis))
        (GATTC (ESP_GATTC_SEARCH_CMPL_EVT status c) gattc_if'
           \<lparr> attr_count_out = Some 2, malloc_ok = True, all_char_out = ao,
             all_char_buf = buf \<rparr>))) =
       [esp_ble_gattc_get_attr_count gattc_if' (gattc_conn_id_global g)
          ESP_GATT_DB_CHARACTERISTIC 0 0 0,
        malloc 2,
        esp_ble_gattc_get_all_char gattc_if' (gattc_conn_id_global g) 0 0 2 0,
        free]"
    unfolding d deliver.simps search_cmpl_requests by simp
  have c11: "requests (snd (deliver (fst (deliver g ?dis))
        (GATTC (ESP_GATTC_SEARCH_CMPL_EVT status c) gattc_if'
           \<lparr> attr_count_out = Some 2, malloc_ok = False, all_char_out = ao,
             all_char_buf = buf \<rparr>))) =
       [esp_ble_gattc_get_attr_count gattc_if' (gattc_conn_id_global g)
          ESP_GATT_DB_CHARACTERISTIC 0 0 0,
        malloc 2]"
    unfolding d deliver.simps search_cmpl_requests by simp
  show ?thesis
    by (intro conjI) (rule c1 c2 c3 c4 c5 c6 c7 c8 c9 c10 c11)+
qed

text \<open>
  C2 as stated fails: a search-complete event for connection 5, delivered after the
  disconnect of connection 5, is acted upon: the handler queries the attribute count,
  allocates and fetches on the stale connection id.
\<close>

theorem stale_search_complete_counterexample:
  "requests (snd (run init_globals
     [GATTC (ESP_GATTC_REG_EVT 0 0) 3 silent_stack,
      GATTC (ESP_GATTC_OPEN_EVT ESP_GATT_OK 5) 3 silent_stack,
      GATTC (ESP_GATTC_DISCONNECT_EVT 0x13 5) 3 silent_stack,
      GATTC (ESP_GATTC_SEARCH_CMPL_EVT 0 5) 3
        \<lparr> attr_count_out = Some 2, malloc_ok = True, all_char_out = Some 0,
          all_char_buf = [] \<rparr>])) =
     [esp_ble_gattc_open 3 target_bda BLE_ADDR_TYPE_PUBLIC True,
      esp_ble_gattc_search_service 3 5 None,
      esp_ble_gattc_get_attr_count 3 5 ESP_GATT_DB_CHARACTERISTIC 0 0 0,
      malloc 2,
      esp_ble_gattc_get_all_char 3 5 0 0 2 0,
      free]"
  by (simp add: requests_def Let_def ESP_GATT_OK_def list_chars_map)

end
